theory Spec2Isabelle
  imports Main "HOL-Library.Word"
begin

section \<open>The ia64 ACPI P-state driver (drivers/cpufreq/ia64-acpi-cpufreq.c)\<close>

text \<open>
  A shallow embedding of the driver. The C functions of the file, but for the two that
  register and unregister the driver, are definitions of the same names. The kernel state the driver reads and writes is a record that is passed
  in and returned; what the driver asks of the rest of the kernel and of the firmware
  (the scheduler, the allocator, the ACPI core, the PAL calls) is a record of answers,
  \<open>platform\<close>, so that the theorems hold for every behaviour of those collaborators.
  A result \<open>None\<close> is undefined behaviour of the C program: a NULL pointer dereferenced
  or an array read outside its bounds.
\<close>

subsection \<open>Machine types and constants\<close>

type_synonym u8 = "8 word"
type_synonym u32 = "32 word"
type_synonym u64 = "64 word"

text \<open>Signed integers are words as well, read with \<open>sint\<close>.\<close>

type_synonym s32 = "32 word"
type_synonym s64 = "64 word"

text \<open>A cpumask is the set of logical processors a task may run on.\<close>

type_synonym cpumask_t = "nat set"

text \<open>
  The errno values, the ACPI address space identifier and the table terminator come from
  kernel headers that are not part of the driver file; they have the values of the Linux
  headers (errno-base.h, actypes.h, cpufreq.h). The theorems use of them only that the
  errno values are not zero.
\<close>

definition EAGAIN :: s32 where "EAGAIN = 11"
definition ENOMEM :: s32 where "ENOMEM = 12"
definition ENODEV :: s32 where "ENODEV = 19"

definition ACPI_ADR_SPACE_FIXED_HARDWARE :: u8 where
  "ACPI_ADR_SPACE_FIXED_HARDWARE = 0x7F"

definition CPUFREQ_TABLE_END :: u32 where
  "CPUFREQ_TABLE_END = 0xFFFFFFFE"

subsection \<open>Data\<close>

text \<open>
  The ACPI structures are declared in acpi/processor.h; only the fields the driver
  touches are kept, with the widths of that header: the fields of a P-state are 64-bit
  ACPI integers (the driver casts them to u32 wherever it needs 32 bits), the counters
  are unsigned int. The array \<open>states\<close> is a list; \<open>state_count\<close> is the
  separate counter that the loops of the driver run to.
\<close>

record acpi_pct_register =
  space_id :: u8

record acpi_processor_px =
  core_frequency :: u64
  power_px :: u64
  transition_latency :: u64
  bus_master_latency :: u64
  control :: u64
  status :: u64

record acpi_processor_performance =
  state :: u32
  control_register :: acpi_pct_register
  status_register :: acpi_pct_register
  state_count :: u32
  states :: "acpi_processor_px list"

record cpufreq_acpi_io =
  acpi_data :: acpi_processor_performance
  resume :: u32

text \<open>Of the framework's policy object the driver uses the processor and the latency.\<close>

record cpufreq_policy =
  cpu :: nat
  cpuinfo_transition_latency :: u32

text \<open>
  The state the driver works on: the affinity mask of the calling task
  (\<open>current->cpus_allowed\<close>), the array \<open>acpi_io_data[NR_CPUS]\<close> (a list whose length is
  NR_CPUS, a NULL slot is \<open>None\<close>), and a history of the hardware: the arguments of all
  calls of \<open>ia64_pal_set_pstate\<close> so far, in order, whether they succeeded or not.
\<close>

record kernel =
  cpus_allowed :: cpumask_t
  pal_set_pstate_calls :: "u64 list"
  acpi_io_data :: "cpufreq_acpi_io option list"

text \<open>
  The answers of the collaborators during one call of the driver:
  the processor that \<open>smp_processor_id()\<close> reports after the pin; the status that
  \<open>ia64_pal_set_pstate\<close> returns for a value; the index and status that
  \<open>ia64_pal_get_pstate\<close> returns; whether \<open>kzalloc\<close> of the per-processor data and
  \<open>kcalloc\<close> of the frequency table succeed; the result and the performance data that
  \<open>acpi_processor_register_performance\<close> delivers for a processor; the result of
  \<open>cpufreq_table_validate_and_show\<close> on the frequencies of a table.
\<close>

record platform =
  smp_processor_id :: nat
  ia64_pal_set_pstate :: "u64 \<Rightarrow> s64"
  ia64_pal_get_pstate :: "u64 \<times> s64"
  kzalloc_data :: bool
  acpi_processor_register_performance :: "nat \<Rightarrow> s32 \<times> acpi_processor_performance"
  kcalloc_freq_table :: bool
  cpufreq_table_validate_and_show :: "u32 list \<Rightarrow> s32"

subsection \<open>Hardware access\<close>

text \<open>
  Modelled from the spec: \<open>set_cpus_allowed_ptr\<close> is the scheduler's, not the driver's;
  it is the step "force affinity to exactly the given mask" of the affinity guard, an
  assignment to the mask of the calling task. Whether the task then really runs on the
  processor is what \<open>smp_processor_id\<close> of the platform answers.
\<close>

definition set_cpus_allowed_ptr :: "cpumask_t \<Rightarrow> kernel \<Rightarrow> kernel" where
  "set_cpus_allowed_ptr new_mask k = k\<lparr>cpus_allowed := new_mask\<rparr>"

definition cpumask_of :: "nat \<Rightarrow> cpumask_t" where
  "cpumask_of c = {c}"

text \<open>
  \<open>processor_set_pstate\<close>: the PAL call gets the value widened to 64 bits; any status
  other than 0 becomes \<open>-ENODEV\<close>.
\<close>

definition processor_set_pstate :: "platform \<Rightarrow> u32 \<Rightarrow> kernel \<Rightarrow> s32 \<times> kernel" where
  "processor_set_pstate hw val k =
     (let retval = ia64_pal_set_pstate hw (ucast val);
          k' = k\<lparr>pal_set_pstate_calls := pal_set_pstate_calls k @ [ucast val]\<rparr>
      in if retval \<noteq> 0 then (- ENODEV, k') else (scast retval, k'))"

text \<open>
  \<open>processor_get_pstate\<close>: the index is cut to 32 bits, and so is the status
  (\<open>return (int)retval\<close>). The pair is (return value, \<open>*value\<close>).
\<close>

definition processor_get_pstate :: "platform \<Rightarrow> s32 \<times> u32" where
  "processor_get_pstate hw =
     (case ia64_pal_get_pstate hw of
        (pstate_index, retval) \<Rightarrow> (scast retval, ucast pstate_index))"

subsection \<open>Reading the frequency\<close>

text \<open>
  The loop of \<open>extract_clock\<close> from counter \<open>i\<close> on. \<open>value\<close> is 32 bits wide and
  \<open>status\<close> 64, so C compares them as 64-bit numbers; the function returns
  \<open>unsigned\<close>, which cuts \<open>core_frequency\<close> to 32 bits. After the loop the entry
  \<open>i - 1\<close> is read; with no state at all that index wraps around and the read is outside
  the array.
\<close>

function extract_clock_from :: "acpi_processor_performance \<Rightarrow> u32 \<Rightarrow> nat \<Rightarrow> u32 option" where
  "extract_clock_from perf val i =
     (if i < unat (state_count perf) then
        (if length (states perf) \<le> i then None
         else if ucast val = status (states perf ! i)
           then Some (ucast (core_frequency (states perf ! i)))
           else extract_clock_from perf val (Suc i))
      else if i = 0 \<or> length (states perf) \<le> i - 1 then None
      else Some (ucast (core_frequency (states perf ! (i - 1)))))"
  by pat_completeness auto
termination
  by (relation "measure (\<lambda>(perf, val, i). unat (state_count perf) - i)") auto

declare extract_clock_from.simps [simp del]

definition extract_clock :: "cpufreq_acpi_io option \<Rightarrow> u32 \<Rightarrow> nat \<Rightarrow> u32 option" where
  "extract_clock data val c =
     (case data of
        None \<Rightarrow> None
      | Some d \<Rightarrow> extract_clock_from (acpi_data d) val 0)"

text \<open>
  \<open>processor_get_freq\<close>: \<open>clock_freq\<close> is an unsigned long (64 bits on ia64), the
  product is stored in the int \<open>ret\<close> and returned as unsigned int: its low 32 bits.
  On a failed read the mask is restored twice, as in the source.
\<close>

definition processor_get_freq ::
  "platform \<Rightarrow> cpufreq_acpi_io option \<Rightarrow> nat \<Rightarrow> kernel \<Rightarrow> (u32 \<times> kernel) option" where
  "processor_get_freq hw data c k =
     (let saved_mask = cpus_allowed k;
          k1 = set_cpus_allowed_ptr (cpumask_of c) k
      in if smp_processor_id hw \<noteq> c then Some (0, set_cpus_allowed_ptr saved_mask k1)
         else case processor_get_pstate hw of
           (ret, val) \<Rightarrow>
             if ret \<noteq> 0
             then Some (0, set_cpus_allowed_ptr saved_mask (set_cpus_allowed_ptr saved_mask k1))
             else (case extract_clock data val c of
                     None \<Rightarrow> None
                   | Some clock \<Rightarrow>
                       let clock_freq = (ucast clock :: u64)
                       in Some (ucast (clock_freq * 1000), set_cpus_allowed_ptr saved_mask k1)))"

subsection \<open>Changing the state\<close>

text \<open>
  \<open>processor_set_freq\<close>: the parameter \<open>state\<close> of the source is \<open>st\<close> here (\<open>state\<close> is
  the field). It is an int: compared with the unsigned field it is converted to unsigned,
  used as an index it is signed. The function writes through the pointer \<open>data\<close>; the
  model returns the new contents of the object next to the return value. Of the nested
  tests of lines 156 to 165, the branch that leaves at once comes first; \<open>d1\<close> is the
  object after the other branch, which clears the flag, or after none.
\<close>

definition processor_set_freq ::
  "platform \<Rightarrow> cpufreq_acpi_io option \<Rightarrow> cpufreq_policy \<Rightarrow> s32 \<Rightarrow> kernel \<Rightarrow>
     (s32 \<times> cpufreq_acpi_io option \<times> kernel) option" where
  "processor_set_freq hw data policy st k =
     (let saved_mask = cpus_allowed k;
          k1 = set_cpus_allowed_ptr (cpumask_of (cpu policy)) k
      in if smp_processor_id hw \<noteq> cpu policy
         then Some (- EAGAIN, data, set_cpus_allowed_ptr saved_mask k1)
         else case data of
           None \<Rightarrow> None
         | Some d \<Rightarrow>
             if ucast st = state (acpi_data d) \<and> resume d = 0
             then Some (0, Some d, set_cpus_allowed_ptr saved_mask k1)
             else
               let d1 = (if ucast st = state (acpi_data d) then d\<lparr>resume := 0\<rparr> else d)
               in if sint st < 0 \<or> int (length (states (acpi_data d1))) \<le> sint st then None
                  else
                    let val = (ucast (control (states (acpi_data d1) ! nat (sint st))) :: u32)
                    in case processor_set_pstate hw val k1 of
                      (ret, k2) \<Rightarrow>
                        if ret \<noteq> 0
                        then Some (- ENODEV, Some d1, set_cpus_allowed_ptr saved_mask k2)
                        else Some (0,
                               Some (d1\<lparr>acpi_data := (acpi_data d1)\<lparr>state := ucast st\<rparr>\<rparr>),
                               set_cpus_allowed_ptr saved_mask k2))"

subsection \<open>The driver's callbacks\<close>

definition acpi_cpufreq_get :: "platform \<Rightarrow> nat \<Rightarrow> kernel \<Rightarrow> (u32 \<times> kernel) option" where
  "acpi_cpufreq_get hw c k =
     (if length (acpi_io_data k) \<le> c then None
      else processor_get_freq hw (acpi_io_data k ! c) c k)"

text \<open>
  \<open>acpi_cpufreq_target\<close>: the unsigned index becomes the int parameter. The object that
  \<open>processor_set_freq\<close> wrote to is the one in the slot of the processor.
\<close>

definition acpi_cpufreq_target ::
  "platform \<Rightarrow> cpufreq_policy \<Rightarrow> u32 \<Rightarrow> kernel \<Rightarrow> (s32 \<times> kernel) option" where
  "acpi_cpufreq_target hw policy index k =
     (if length (acpi_io_data k) \<le> cpu policy then None
      else case processor_set_freq hw (acpi_io_data k ! cpu policy) policy (ucast index) k of
        None \<Rightarrow> None
      | Some (retval, data', k') \<Rightarrow>
          Some (retval, k'\<lparr>acpi_io_data := (acpi_io_data k')[cpu policy := data']\<rparr>))"

text \<open>The latency loop of \<open>acpi_cpufreq_cpu_init\<close>: 64-bit products, a 32-bit field.\<close>

fun detect_latency :: "acpi_processor_px list \<Rightarrow> u32 \<Rightarrow> u32" where
  "detect_latency [] lat = lat"
| "detect_latency (p # ps) lat =
     detect_latency ps
       (if (ucast lat :: u64) < transition_latency p * 1000
        then ucast (transition_latency p * 1000) else lat)"

text \<open>The table loop: one frequency for each state, then the terminator.\<close>

definition table_init :: "acpi_processor_px list \<Rightarrow> u32 list" where
  "table_init sts = map (\<lambda>p. ucast (core_frequency p * 1000)) sts @ [CPUFREQ_TABLE_END]"

text \<open>
  \<open>acpi_cpufreq_cpu_init\<close>. The variable \<open>result\<close> is an unsigned int that holds int
  values and is returned as int; it is an \<open>s32\<close> here. Both loops read the first
  \<open>state_count\<close> entries of \<open>states\<close>, which is outside the array when it is shorter;
  the table has \<open>state_count + 1\<close> entries, computed in unsigned int. What the ACPI core
  keeps for a registered processor and the lifetime of the frequency table are not
  modelled. The result is (return value, policy, kernel).
\<close>

definition acpi_cpufreq_cpu_init ::
  "platform \<Rightarrow> cpufreq_policy \<Rightarrow> kernel \<Rightarrow> (s32 \<times> cpufreq_policy \<times> kernel) option" where
  "acpi_cpufreq_cpu_init hw policy k =
     (if \<not> kzalloc_data hw then Some (- ENOMEM, policy, k)
      else if length (acpi_io_data k) \<le> cpu policy then None
      else
        let err = k\<lparr>acpi_io_data := (acpi_io_data k)[cpu policy := None]\<rparr>
        in case acpi_processor_register_performance hw (cpu policy) of
          (result, perf) \<Rightarrow>
            if result \<noteq> 0 then Some (result, policy, err)
            else if state_count perf \<le> 1 then Some (- ENODEV, policy, err)
            else if space_id (control_register perf) \<noteq> ACPI_ADR_SPACE_FIXED_HARDWARE \<or>
                    space_id (status_register perf) \<noteq> ACPI_ADR_SPACE_FIXED_HARDWARE
              then Some (- ENODEV, policy, err)
            else if \<not> kcalloc_freq_table hw then Some (- ENOMEM, policy, err)
            else if state_count perf + 1 = 0 \<or>
                    length (states perf) < unat (state_count perf) then None
            else
              let sts = take (unat (state_count perf)) (states perf);
                  policy1 = policy\<lparr>cpuinfo_transition_latency := detect_latency sts 0\<rparr>;
                  result1 = cpufreq_table_validate_and_show hw (table_init sts)
              in if result1 \<noteq> 0 then Some (result1, policy1, err)
                 else Some (result1, policy1,
                        k\<lparr>acpi_io_data :=
                            (acpi_io_data k)[cpu policy :=
                               Some \<lparr>acpi_data = perf, resume = 1\<rparr>]\<rparr>))"

definition acpi_cpufreq_cpu_exit ::
  "cpufreq_policy \<Rightarrow> kernel \<Rightarrow> (s32 \<times> kernel) option" where
  "acpi_cpufreq_cpu_exit policy k =
     (if length (acpi_io_data k) \<le> cpu policy then None
      else case acpi_io_data k ! cpu policy of
        None \<Rightarrow> Some (0, k)
      | Some d \<Rightarrow> Some (0, k\<lparr>acpi_io_data := (acpi_io_data k)[cpu policy := None]\<rparr>))"

text \<open>
  The operations of \<open>acpi_cpufreq_driver\<close>, through which the framework reaches the
  driver: a call is one of the four callbacks with its arguments and with what the
  platform answers during it; the driver takes the kernel from one state to the next.
\<close>

datatype call =
    Init platform cpufreq_policy
  | Exit cpufreq_policy
  | Target platform cpufreq_policy u32
  | Get platform nat

fun acpi_cpufreq_driver :: "call \<Rightarrow> kernel \<Rightarrow> kernel option" where
  "acpi_cpufreq_driver (Init hw policy) k =
     map_option (\<lambda>(result, policy', k'). k') (acpi_cpufreq_cpu_init hw policy k)"
| "acpi_cpufreq_driver (Exit policy) k =
     map_option snd (acpi_cpufreq_cpu_exit policy k)"
| "acpi_cpufreq_driver (Target hw policy index) k =
     map_option snd (acpi_cpufreq_target hw policy index k)"
| "acpi_cpufreq_driver (Get hw c) k =
     map_option snd (acpi_cpufreq_get hw c k)"

subsection \<open>Preconditions of the callbacks\<close>

text \<open>
  The framework calls \<open>target\<close> only with an index of the table it was given. For the C
  code the index must be inside the array \<open>states\<close>; as it is passed on as an int, it
  must also be below \<open>2 ^ 31\<close>.
\<close>

definition valid_index :: "cpufreq_acpi_io \<Rightarrow> u32 \<Rightarrow> bool" where
  "valid_index d index \<longleftrightarrow>
     unat index < length (states (acpi_data d)) \<and> unat index < 2 ^ 31"

text \<open>
  The word that \<open>processor_set_freq\<close> hands to the PAL for the state \<open>index\<close>: the
  control value of that state, cast to u32 (line 175) and widened again (line 50).
\<close>

definition pstate_value :: "cpufreq_acpi_io \<Rightarrow> u32 \<Rightarrow> u64" where
  "pstate_value d index =
     ucast (ucast (control (states (acpi_data d) ! unat index)) :: u32)"

subsection \<open>A concrete processor\<close>

text \<open>
  The scenario of the specification: four operating points of 3000, 2600, 2200 and 1800,
  the first one active, on processor 1 of a machine with four processors.
\<close>

definition ex_px :: "u64 \<Rightarrow> u64 \<Rightarrow> u64 \<Rightarrow> acpi_processor_px" where
  "ex_px f c s =
     \<lparr>core_frequency = f, power_px = 0, transition_latency = 10,
      bus_master_latency = 10, control = c, status = s\<rparr>"

definition ex_perf :: acpi_processor_performance where
  "ex_perf =
     \<lparr>state = 0,
      control_register = \<lparr>space_id = 0x7F\<rparr>,
      status_register = \<lparr>space_id = 0x7F\<rparr>,
      state_count = 4,
      states = [ex_px 3000 0xA0 0x10, ex_px 2600 0xA1 0x20,
                ex_px 2200 0xA2 0x30, ex_px 1800 0xA3 0x40]\<rparr>"

text \<open>The entry of the processor as \<open>init\<close> leaves it, and with the flag down.\<close>

definition ex_data :: cpufreq_acpi_io where
  "ex_data = \<lparr>acpi_data = ex_perf, resume = 1\<rparr>"

definition ex_data_synced :: cpufreq_acpi_io where
  "ex_data_synced = \<lparr>acpi_data = ex_perf, resume = 0\<rparr>"

text \<open>A platform on which everything succeeds; the status read back is \<open>0x20\<close>.\<close>

definition ex_hw :: platform where
  "ex_hw =
     \<lparr>smp_processor_id = 1,
      ia64_pal_set_pstate = (\<lambda>v. 0),
      ia64_pal_get_pstate = (0x20, 0),
      kzalloc_data = True,
      acpi_processor_register_performance = (\<lambda>c. (0, ex_perf)),
      kcalloc_freq_table = True,
      cpufreq_table_validate_and_show = (\<lambda>t. 0)\<rparr>"

text \<open>The task was migrated away before the pin: it runs on processor 0.\<close>

definition ex_hw_race :: platform where
  "ex_hw_race = ex_hw\<lparr>smp_processor_id := 0\<rparr>"

text \<open>The PAL refuses both calls with status \<open>-1\<close>.\<close>

definition ex_hw_fail :: platform where
  "ex_hw_fail = ex_hw\<lparr>ia64_pal_set_pstate := (\<lambda>v. - 1), ia64_pal_get_pstate := (0, - 1)\<rparr>"

text \<open>The status read back, \<open>0x99\<close>, is not in the table.\<close>

definition ex_hw_unknown :: platform where
  "ex_hw_unknown = ex_hw\<lparr>ia64_pal_get_pstate := (0x99, 0)\<rparr>"

text \<open>ACPI delivers a single state; ACPI declares the control register in system I/O space.\<close>

definition ex_hw_single :: platform where
  "ex_hw_single =
     ex_hw\<lparr>acpi_processor_register_performance :=
       (\<lambda>c. (0, ex_perf\<lparr>state_count := 1, states := [ex_px 3000 0xA0 0x10]\<rparr>))\<rparr>"

definition ex_hw_sysio :: platform where
  "ex_hw_sysio =
     ex_hw\<lparr>acpi_processor_register_performance :=
       (\<lambda>c. (0, ex_perf\<lparr>control_register := \<lparr>space_id = 1\<rparr>\<rparr>))\<rparr>"

definition ex_policy :: cpufreq_policy where
  "ex_policy = \<lparr>cpu = 1, cpuinfo_transition_latency = 0\<rparr>"

text \<open>
  The kernel before the driver has seen the processor, after \<open>init\<close>, after the first
  \<open>target\<close> of state 0, and after \<open>init\<close> and one \<open>target\<close> of state 2.
\<close>

definition ex_kernel :: kernel where
  "ex_kernel =
     \<lparr>cpus_allowed = {0, 1, 2, 3}, pal_set_pstate_calls = [],
      acpi_io_data = [None, None, None, None]\<rparr>"

definition ex_active :: kernel where
  "ex_active =
     ex_kernel\<lparr>acpi_io_data := [None, Some ex_data, None, None]\<rparr>"

definition ex_synced :: kernel where
  "ex_synced =
     \<lparr>cpus_allowed = {0, 1, 2, 3}, pal_set_pstate_calls = [0xA0],
      acpi_io_data = [None, Some ex_data_synced, None, None]\<rparr>"

definition ex_moved :: kernel where
  "ex_moved =
     \<lparr>cpus_allowed = {0, 1, 2, 3}, pal_set_pstate_calls = [0xA2],
      acpi_io_data =
        [None, Some \<lparr>acpi_data = ex_perf\<lparr>state := 2\<rparr>, resume = 1\<rparr>, None, None]\<rparr>"

text \<open>The kernel after \<open>init\<close>, a \<open>target\<close> of state 2 and a second \<open>target\<close> of state 2.\<close>

definition ex_moved_synced :: kernel where
  "ex_moved_synced =
     \<lparr>cpus_allowed = {0, 1, 2, 3}, pal_set_pstate_calls = [0xA2, 0xA2],
      acpi_io_data =
        [None, Some \<lparr>acpi_data = ex_perf\<lparr>state := 2\<rparr>, resume = 0\<rparr>, None, None]\<rparr>"

text \<open>The kernel after a \<open>target\<close> of state 2 that the PAL has refused.\<close>

definition ex_refused :: kernel where
  "ex_refused =
     \<lparr>cpus_allowed = {0, 1, 2, 3}, pal_set_pstate_calls = [0xA0, 0xA2],
      acpi_io_data = [None, Some ex_data_synced, None, None]\<rparr>"

text \<open>The policy as \<open>init\<close> leaves it.\<close>

definition ex_policy_active :: cpufreq_policy where
  "ex_policy_active = \<lparr>cpu = 1, cpuinfo_transition_latency = 10000\<rparr>"

text \<open>A processor whose second state is declared with a frequency of 4294968.\<close>

definition ex_data_huge :: cpufreq_acpi_io where
  "ex_data_huge =
     \<lparr>acpi_data =
        ex_perf\<lparr>state_count := 2,
                states := [ex_px 3000 0xA0 0x10, ex_px 4294968 0xA1 0x20]\<rparr>,
      resume = 0\<rparr>"

definition ex_huge :: kernel where
  "ex_huge =
     \<lparr>cpus_allowed = {0, 1, 2, 3}, pal_set_pstate_calls = [],
      acpi_io_data = [None, Some ex_data_huge, None, None]\<rparr>"

section \<open>Properties\<close>

subsection \<open>Words\<close>

text \<open>An index below \<open>2 ^ 31\<close> is the same number as an int.\<close>

lemma sint_index:
  assumes "unat (index :: u32) < 2 ^ 31"
  shows "sint index = uint index"
proof -
  from assms have "int (unat index) < int (2 ^ 31)"
    by (simp only: of_nat_less_iff)
  then have upper: "uint index < 2 ^ 31"
    by simp
  have lower: "- (2 ^ 31) \<le> uint index"
    by (rule order_trans [of _ 0]) simp_all
  have "signed_take_bit 31 (uint index) = uint index"
    using lower upper by (rule signed_take_bit_int_eq_self)
  then show ?thesis
    by (simp add: sint_uint)
qed

text \<open>An int that is not negative is the same number unsigned, and below \<open>2 ^ 31\<close>.\<close>

lemma index_of_sint:
  assumes "0 \<le> sint (index :: u32)"
  shows "unat index < 2 ^ 31" and "sint index = uint index"
proof -
  have upper: "uint index < 2 ^ 31"
  proof (rule ccontr)
    assume "\<not> uint index < 2 ^ 31"
    then have "2 ^ 31 \<le> uint index"
      by simp
    then have "signed_take_bit 31 (uint index) \<le> uint index - 2 ^ Suc 31"
      by (rule signed_take_bit_int_less_eq)
    then have "sint index \<le> uint index - 2 ^ 32"
      by (simp add: sint_uint)
    moreover have "uint index < 2 ^ 32"
      using uint_lt2p [of index] by simp
    ultimately show False
      using assms by simp
  qed
  have lower: "- (2 ^ 31) \<le> uint index"
    by (rule order_trans [of _ 0]) simp_all
  have "signed_take_bit 31 (uint index) = uint index"
    using lower upper by (rule signed_take_bit_int_eq_self)
  then show "sint index = uint index"
    by (simp add: sint_uint)
  have "nat (uint index) < nat (2 ^ 31)"
    using upper by (simp only: nat_less_eq_zless [OF uint_ge_0])
  then show "unat index < 2 ^ 31"
    by simp
qed

text \<open>
  What \<open>processor_get_freq\<close> does to a frequency: cut to 32 bits, times 1000 in 64
  bits, cut to 32 bits again. As a number that is the product modulo \<open>2 ^ 32\<close>.
\<close>

lemma unat_ucast_down: "unat (ucast (w :: u64) :: u32) = unat w mod 2 ^ 32"
  by (simp add: unsigned_ucast_eq take_bit_eq_mod)

lemma unat_ucast_up: "unat (ucast (w :: u32) :: u64) = unat w"
proof -
  have "unat w < 2 ^ 32"
    using unsigned_less [of w] by simp
  then have "unat w < 2 ^ 64"
    by simp
  then show ?thesis
    by (simp add: unsigned_ucast_eq take_bit_eq_mod)
qed

lemma unat_hz:
  "unat (ucast ((ucast (ucast (f :: u64) :: u32) :: u64) * 1000) :: u32) =
     unat f * 1000 mod 2 ^ 32"
proof -
  have dvd: "(2 :: nat) ^ 32 dvd 2 ^ 64"
    by (rule le_imp_power_dvd) simp
  have "unat ((ucast (ucast f :: u32) :: u64) * 1000) =
      (unat f mod 2 ^ 32 * 1000) mod 2 ^ 64"
    by (simp only: unat_word_ariths(2) unat_ucast_up unat_ucast_down) simp
  then have "unat (ucast ((ucast (ucast f :: u32) :: u64) * 1000) :: u32) =
      ((unat f mod 2 ^ 32 * 1000) mod 2 ^ 64) mod 2 ^ 32"
    by (simp only: unat_ucast_down)
  also have "\<dots> = (unat f mod 2 ^ 32 * 1000) mod 2 ^ 32"
    using dvd by (rule mod_mod_cancel)
  also have "\<dots> = unat f * 1000 mod 2 ^ 32"
    by (rule mod_mult_left_eq)
  finally show ?thesis .
qed


lemma word_le_one: "unat (n :: u32) < 2 \<Longrightarrow> n \<le> 1"
  by (simp add: word_le_nat_alt)

text \<open>
  \<open>processor_get_pstate\<close> returns the status of the PAL as an int. For a status that
  fits an int, as the statuses of the PAL do, this return value is 0 exactly when the
  status is.
\<close>

lemma pal_status_as_int:
  assumes "- (2 ^ 31) \<le> sint (retval :: s64)" and "sint retval < 2 ^ 31"
  shows "(scast retval :: s32) = 0 \<longleftrightarrow> retval = 0"
proof -
  have "sint (scast retval :: s32) = signed_take_bit 31 (sint retval)"
    by (simp add: signed_scast_eq)
  also have "\<dots> = sint retval"
    using assms by (rule signed_take_bit_int_eq_self)
  finally have "sint (scast retval :: s32) = 0 \<longleftrightarrow> sint retval = 0"
    by simp
  then show ?thesis
    by (simp only: signed_eq_0_iff)
qed

lemma errno_nonzero: "- EAGAIN \<noteq> 0" "- ENODEV \<noteq> 0" "- ENOMEM \<noteq> 0"
  by (simp_all add: EAGAIN_def ENODEV_def ENOMEM_def)

subsection \<open>The three ways through \<open>acpi_cpufreq_target\<close>\<close>

text \<open>A migration race: \<open>-EAGAIN\<close>, and nothing has changed.\<close>

lemma target_race:
  assumes "cpu policy < length (acpi_io_data k)"
    and "smp_processor_id hw \<noteq> cpu policy"
  shows "acpi_cpufreq_target hw policy index k = Some (- EAGAIN, k)"
  using assms
  by (simp add: acpi_cpufreq_target_def processor_set_freq_def set_cpus_allowed_ptr_def)

text \<open>The processor is at the target already and the flag is down: nothing happens.\<close>

lemma target_fast:
  assumes "cpu policy < length (acpi_io_data k)"
    and "acpi_io_data k ! cpu policy = Some d"
    and "smp_processor_id hw = cpu policy"
    and "state (acpi_data d) = index" and "resume d = 0"
  shows "acpi_cpufreq_target hw policy index k = Some (0, k)"
proof -
  have "(acpi_io_data k)[cpu policy := Some d] = acpi_io_data k"
    using assms(2) by (metis list_update_id)
  with assms show ?thesis
    by (simp add: acpi_cpufreq_target_def processor_set_freq_def set_cpus_allowed_ptr_def)
qed

text \<open>
  Otherwise the value of the target state goes to the PAL, and the status of the PAL
  decides.
\<close>

lemma target_commit:
  assumes "cpu policy < length (acpi_io_data k)"
    and "acpi_io_data k ! cpu policy = Some d"
    and "smp_processor_id hw = cpu policy"
    and "valid_index d index"
    and "index = state (acpi_data d) \<longrightarrow> resume d \<noteq> 0"
  shows "acpi_cpufreq_target hw policy index k =
     (let d1 = (if index = state (acpi_data d) then d\<lparr>resume := 0\<rparr> else d);
          calls = pal_set_pstate_calls k @ [pstate_value d index]
      in if ia64_pal_set_pstate hw (pstate_value d index) \<noteq> 0
         then Some (- ENODEV,
                k\<lparr>pal_set_pstate_calls := calls,
                  acpi_io_data := (acpi_io_data k)[cpu policy := Some d1]\<rparr>)
         else Some (0,
                k\<lparr>pal_set_pstate_calls := calls,
                  acpi_io_data := (acpi_io_data k)[cpu policy :=
                    Some (d1\<lparr>acpi_data := (acpi_data d1)\<lparr>state := index\<rparr>\<rparr>)]\<rparr>))"
proof -
  have "unat index < 2 ^ 31"
    using assms(4) by (simp add: valid_index_def)
  then have idx: "sint index = uint index"
    by (rule sint_index)
  have "int (unat index) < int (length (states (acpi_data d)))"
    using assms(4) by (simp only: valid_index_def of_nat_less_iff)
  then have bound: "\<not> int (length (states (acpi_data d))) \<le> uint index"
    by simp
  show ?thesis
    using assms(1,2,3,5) bound
    by (auto simp add: acpi_cpufreq_target_def processor_set_freq_def processor_set_pstate_def
        set_cpus_allowed_ptr_def pstate_value_def idx ENODEV_def Let_def)
qed

text \<open>A call that returns has gone one of the three ways.\<close>

lemma target_returns_cases:
  assumes "acpi_cpufreq_target hw policy index k = Some r"
  obtains (race) "cpu policy < length (acpi_io_data k)" and "smp_processor_id hw \<noteq> cpu policy"
  | (fast) d where "cpu policy < length (acpi_io_data k)"
      and "acpi_io_data k ! cpu policy = Some d"
      and "smp_processor_id hw = cpu policy"
      and "state (acpi_data d) = index" and "resume d = 0"
  | (commit) d where "cpu policy < length (acpi_io_data k)"
      and "acpi_io_data k ! cpu policy = Some d"
      and "smp_processor_id hw = cpu policy"
      and "valid_index d index"
      and "index = state (acpi_data d) \<longrightarrow> resume d \<noteq> 0"
proof -
  have len: "cpu policy < length (acpi_io_data k)"
    using assms by (simp add: acpi_cpufreq_target_def split: if_splits)
  show thesis
  proof (cases "smp_processor_id hw = cpu policy")
    case False
    with len show thesis by (rule race)
  next
    case pinned: True
    show thesis
    proof (cases "acpi_io_data k ! cpu policy")
      case None
      with assms len pinned show thesis
        by (simp add: acpi_cpufreq_target_def processor_set_freq_def)
    next
      case (Some d)
      show thesis
      proof (cases "state (acpi_data d) = index \<and> resume d = 0")
        case True
        with len Some pinned show thesis by (auto intro: fast)
      next
        case False
        then have slow: "index = state (acpi_data d) \<longrightarrow> resume d \<noteq> 0"
          by blast
        have "\<not> (sint index < 0 \<or> int (length (states (acpi_data d))) \<le> sint index)"
          using assms len pinned Some False
          by (auto simp add: acpi_cpufreq_target_def processor_set_freq_def Let_def
              split: if_splits)
        then have nonneg: "0 \<le> sint index" and below: "sint index < int (length (states (acpi_data d)))"
          by simp_all
        have "uint index < int (length (states (acpi_data d)))"
          using below index_of_sint(2) [OF nonneg] by simp
        then have "nat (uint index) < nat (int (length (states (acpi_data d))))"
          by (simp only: nat_less_eq_zless [OF uint_ge_0])
        then have "unat index < length (states (acpi_data d))"
          by simp
        with index_of_sint(1) [OF nonneg] have "valid_index d index"
          by (simp add: valid_index_def)
        with len Some pinned slow show thesis by (auto intro: commit)
      qed
    qed
  qed
qed


subsection \<open>A successful \<open>acpi_cpufreq_cpu_init\<close>\<close>

text \<open>It returns 0 only at its end: the entry holds what ACPI delivered, the flag is 1.\<close>

lemma init_success:
  assumes "acpi_cpufreq_cpu_init hw policy k = Some (0, policy1, k1)"
  shows "cpu policy < length (acpi_io_data k)"
    and "cpu policy1 = cpu policy"
    and "k1 = k\<lparr>acpi_io_data := (acpi_io_data k)[cpu policy :=
           Some \<lparr>acpi_data = snd (acpi_processor_register_performance hw (cpu policy)),
                 resume = 1\<rparr>]\<rparr>"
  using assms
  by (auto simp add: acpi_cpufreq_cpu_init_def Let_def ENOMEM_def ENODEV_def
      split: if_splits prod.splits)

lemma init_entry:
  assumes "acpi_cpufreq_cpu_init hw policy k = Some (0, policy1, k1)"
    and "acpi_io_data k1 ! cpu policy = Some d"
  shows "resume d = 1"
  using init_success [OF assms(1)] assms(2) by auto

subsection \<open>The ways through \<open>acpi_cpufreq_get\<close>\<close>

lemma get_unavailable:
  assumes "c < length (acpi_io_data k)"
    and "smp_processor_id hw \<noteq> c \<or> fst (processor_get_pstate hw) \<noteq> 0"
  shows "acpi_cpufreq_get hw c k = Some (0, k)"
  using assms
  by (cases "processor_get_pstate hw")
    (auto simp add: acpi_cpufreq_get_def processor_get_freq_def set_cpus_allowed_ptr_def
      Let_def)

lemma get_read:
  assumes "c < length (acpi_io_data k)"
    and "acpi_io_data k ! c = Some d"
    and "smp_processor_id hw = c"
    and "processor_get_pstate hw = (0, val)"
  shows "acpi_cpufreq_get hw c k =
     (case extract_clock_from (acpi_data d) val 0 of
        None \<Rightarrow> None
      | Some clock \<Rightarrow> Some (ucast ((ucast clock :: u64) * 1000), k))"
  using assms
  by (auto simp add: acpi_cpufreq_get_def processor_get_freq_def extract_clock_def
      set_cpus_allowed_ptr_def Let_def split: option.splits)

lemma get_returns_same_kernel:
  assumes "acpi_cpufreq_get hw c k = Some (freq, k')"
  shows "k' = k"
  using assms
  by (auto simp add: acpi_cpufreq_get_def processor_get_freq_def set_cpus_allowed_ptr_def
      Let_def split: if_splits prod.splits option.splits)

text \<open>
  The loop of \<open>extract_clock\<close> on a table that holds \<open>state_count\<close> states, at least
  one: the first state from \<open>i\<close> on whose status is the value, else the last state.
\<close>

lemma extract_clock_from_find:
  assumes "length (states perf) = unat (state_count perf)"
    and "states perf \<noteq> []"
    and "i \<le> length (states perf)"
  shows "extract_clock_from perf val i =
     Some (ucast (core_frequency
       (case find (\<lambda>p. status p = ucast val) (drop i (states perf)) of
          Some p \<Rightarrow> p | None \<Rightarrow> last (states perf))))"
  using assms
proof (induction perf val i rule: extract_clock_from.induct)
  case (1 perf val i)
  show ?case
  proof (cases "i < unat (state_count perf)")
    case True
    then have inside: "i < length (states perf)"
      using "1.prems"(1) by simp
    then have split: "drop i (states perf) = states perf ! i # drop (Suc i) (states perf)"
      by (simp add: Cons_nth_drop_Suc)
    show ?thesis
    proof (cases "ucast val = status (states perf ! i)")
      case hit: True
      then show ?thesis
        using True inside split by (simp add: extract_clock_from.simps [of perf val i])
    next
      case miss: False
      then have "status (states perf ! i) \<noteq> ucast val"
        by auto
      moreover have "extract_clock_from perf val (Suc i) =
        Some (ucast (core_frequency
         (case find (\<lambda>p. status p = ucast val) (drop (Suc i) (states perf)) of
          Some p \<Rightarrow> p | None \<Rightarrow> last (states perf))))"
        using "1.IH" [OF True _ miss] inside "1.prems" by simp
      ultimately show ?thesis
        using True inside split miss by (simp add: extract_clock_from.simps [of perf val i])
    qed
  next
    case False
    then have at_end: "i = length (states perf)"
      using "1.prems" by simp
    then have "0 < i" and "\<not> length (states perf) \<le> i - 1"
      using "1.prems"(2) by (cases "states perf"; simp)+
    moreover have "states perf ! (i - 1) = last (states perf)"
      using at_end "1.prems"(2) by (simp add: last_conv_nth)
    ultimately show ?thesis
      using False at_end by (subst extract_clock_from.simps) simp
  qed
qed

subsection \<open>The callbacks return\<close>

text \<open>
  With an entry for the processor, and an index inside the table or a table that holds
  its \<open>state_count\<close> states, the callbacks have no undefined behaviour.
\<close>

lemma target_returns:
  assumes "cpu policy < length (acpi_io_data k)"
    and "acpi_io_data k ! cpu policy = Some d"
    and "valid_index d index"
  shows "\<exists>retval k'. acpi_cpufreq_target hw policy index k = Some (retval, k')"
proof (cases "smp_processor_id hw = cpu policy")
  case False
  with assms(1) show ?thesis
    by (simp add: target_race)
next
  case pinned: True
  show ?thesis
  proof (cases "state (acpi_data d) = index \<and> resume d = 0")
    case True
    with assms(1,2) pinned show ?thesis
      by (simp add: target_fast)
  next
    case False
    then have "index = state (acpi_data d) \<longrightarrow> resume d \<noteq> 0"
      by blast
    from target_commit [OF assms(1,2) pinned assms(3) this] show ?thesis
      by (simp add: Let_def)
  qed
qed

lemma get_returns:
  assumes "c < length (acpi_io_data k)"
    and "acpi_io_data k ! c = Some d"
    and "length (states (acpi_data d)) = unat (state_count (acpi_data d))"
    and "states (acpi_data d) \<noteq> []"
  shows "\<exists>freq. acpi_cpufreq_get hw c k = Some (freq, k)"
proof (cases "smp_processor_id hw \<noteq> c \<or> fst (processor_get_pstate hw) \<noteq> 0")
  case True
  with assms(1) show ?thesis
    by (simp add: get_unavailable)
next
  case False
  then have pinned: "smp_processor_id hw = c"
    and "processor_get_pstate hw = (0, snd (processor_get_pstate hw))"
    by (simp_all add: prod_eq_iff)
  from get_read [OF assms(1,2) this] show ?thesis
    by (simp add: extract_clock_from_find [OF assms(3,4)])
qed

subsection \<open>Transitions\<close>

text \<open>
  C1. For a processor with a registered entry and a valid target index that differs from
  the current one: if the pin succeeds and the PAL accepts the value of the target state,
  \<open>acpi_cpufreq_target\<close> returns 0, the current state of the entry is the target index
  afterwards, and that one value has been committed.
\<close>

theorem target_advances:
  assumes "cpu policy < length (acpi_io_data k)"
    and "acpi_io_data k ! cpu policy = Some d"
    and "valid_index d index"
    and "index \<noteq> state (acpi_data d)"
    and "smp_processor_id hw = cpu policy"
    and "ia64_pal_set_pstate hw (pstate_value d index) = 0"
  shows "\<exists>k' d'. acpi_cpufreq_target hw policy index k = Some (0, k') \<and>
           acpi_io_data k' ! cpu policy = Some d' \<and>
           state (acpi_data d') = index \<and>
           pal_set_pstate_calls k' = pal_set_pstate_calls k @ [pstate_value d index]"
proof -
  have "index = state (acpi_data d) \<longrightarrow> resume d \<noteq> 0"
    using assms(4) by simp
  from target_commit [OF assms(1,2,5,3) this] assms(1,4,6)
  show ?thesis
    by (simp add: Let_def)
qed

theorem target_advances_witness:
  "cpu ex_policy < length (acpi_io_data ex_active) \<and>
   acpi_io_data ex_active ! cpu ex_policy = Some ex_data \<and>
   valid_index ex_data 2 \<and>
   2 \<noteq> state (acpi_data ex_data) \<and>
   smp_processor_id ex_hw = cpu ex_policy \<and>
   ia64_pal_set_pstate ex_hw (pstate_value ex_data 2) = 0 \<and>
   (\<exists>k' d'. acpi_cpufreq_target ex_hw ex_policy 2 ex_active = Some (0, k') \<and>
      acpi_io_data k' ! cpu ex_policy = Some d' \<and>
      state (acpi_data d') = 2 \<and>
      pal_set_pstate_calls k' = pal_set_pstate_calls ex_active @ [pstate_value ex_data 2])"
proof -
  have h1: "cpu ex_policy < length (acpi_io_data ex_active)"
    by code_simp
  have h2: "acpi_io_data ex_active ! cpu ex_policy = Some ex_data"
    by code_simp
  have h3: "valid_index ex_data 2"
    by (simp add: valid_index_def ex_data_def ex_perf_def)
  have h4: "2 \<noteq> state (acpi_data ex_data)"
    by code_simp
  have h5: "smp_processor_id ex_hw = cpu ex_policy"
    by code_simp
  have h6: "ia64_pal_set_pstate ex_hw (pstate_value ex_data 2) = 0"
    by code_simp
  from target_advances [OF h1 h2 h3 h4 h5 h6] h1 h2 h3 h4 h5 h6
  show ?thesis
    by blast
qed

text \<open>
  C2. For a processor with a registered entry and a valid target index: if the commit is
  made (the pin has succeeded and the call is not the no-op of a processor that is at the
  target with the flag down) and the PAL refuses it, \<open>acpi_cpufreq_target\<close> returns
  \<open>-ENODEV\<close>, the current state of the entry is what it was, and a flag that was down
  before the call is down after it.
\<close>

theorem commit_failure_keeps_state:
  assumes "cpu policy < length (acpi_io_data k)"
    and "acpi_io_data k ! cpu policy = Some d"
    and "valid_index d index"
    and "smp_processor_id hw = cpu policy"
    and "index = state (acpi_data d) \<longrightarrow> resume d \<noteq> 0"
    and "ia64_pal_set_pstate hw (pstate_value d index) \<noteq> 0"
  shows "\<exists>k' d'. acpi_cpufreq_target hw policy index k = Some (- ENODEV, k') \<and>
           acpi_io_data k' ! cpu policy = Some d' \<and>
           state (acpi_data d') = state (acpi_data d) \<and>
           (resume d = 0 \<longrightarrow> resume d' = 0)"
  using target_commit [OF assms(1,2,4,3,5)] assms(1,5,6)
  by (simp add: Let_def)

theorem commit_failure_keeps_state_witness:
  "cpu ex_policy < length (acpi_io_data ex_synced) \<and>
   acpi_io_data ex_synced ! cpu ex_policy = Some ex_data_synced \<and>
   valid_index ex_data_synced 2 \<and>
   smp_processor_id ex_hw_fail = cpu ex_policy \<and>
   2 \<noteq> state (acpi_data ex_data_synced) \<and>
   ia64_pal_set_pstate ex_hw_fail (pstate_value ex_data_synced 2) \<noteq> 0 \<and>
   resume ex_data_synced = 0 \<and>
   (\<exists>k' d'. acpi_cpufreq_target ex_hw_fail ex_policy 2 ex_synced = Some (- ENODEV, k') \<and>
      acpi_io_data k' ! cpu ex_policy = Some d' \<and>
      state (acpi_data d') = state (acpi_data ex_data_synced) \<and>
      resume d' = 0)"
proof -
  have h1: "cpu ex_policy < length (acpi_io_data ex_synced)"
    by code_simp
  have h2: "acpi_io_data ex_synced ! cpu ex_policy = Some ex_data_synced"
    by code_simp
  have h3: "valid_index ex_data_synced 2"
    by (simp add: valid_index_def ex_data_synced_def ex_perf_def)
  have h4: "smp_processor_id ex_hw_fail = cpu ex_policy"
    by code_simp
  have h5': "2 \<noteq> state (acpi_data ex_data_synced)"
    by code_simp
  then have h5: "2 = state (acpi_data ex_data_synced) \<longrightarrow> resume ex_data_synced \<noteq> 0"
    by simp
  have h6: "ia64_pal_set_pstate ex_hw_fail (pstate_value ex_data_synced 2) \<noteq> 0"
    by code_simp
  have h7: "resume ex_data_synced = 0"
    by code_simp
  from commit_failure_keeps_state [OF h1 h2 h3 h4 h5 h6] h1 h2 h3 h4 h5' h6 h7
  show ?thesis
    by blast
qed

text \<open>
  C3, as the code has it. If the pin succeeds, and the target index is the current state
  and the flag \<open>resume\<close> is down, \<open>acpi_cpufreq_target\<close> returns 0 and leaves the whole
  kernel state as it was: no value is committed, the entry is untouched, the mask is the
  old one. In particular this is so for the second of two calls with the same index, when
  the first one returned 0 and had started with the flag down or at that index.
\<close>

theorem target_idempotent:
  assumes "smp_processor_id hw = cpu policy"
    and "cpu policy < length (acpi_io_data k)"
    and "acpi_io_data k ! cpu policy = Some d"
    and "(state (acpi_data d) = index \<and> resume d = 0) \<or>
         (\<exists>hw0 k0 d0. acpi_io_data k0 ! cpu policy = Some d0 \<and>
            (resume d0 = 0 \<or> state (acpi_data d0) = index) \<and>
            acpi_cpufreq_target hw0 policy index k0 = Some (0, k))"
  shows "acpi_cpufreq_target hw policy index k = Some (0, k)"
proof -
  have "state (acpi_data d) = index \<and> resume d = 0"
    using assms(4)
  proof
    assume "state (acpi_data d) = index \<and> resume d = 0"
    then show ?thesis .
  next
    assume "\<exists>hw0 k0 d0. acpi_io_data k0 ! cpu policy = Some d0 \<and>
            (resume d0 = 0 \<or> state (acpi_data d0) = index) \<and>
            acpi_cpufreq_target hw0 policy index k0 = Some (0, k)"
    then obtain hw0 k0 d0 where entry: "acpi_io_data k0 ! cpu policy = Some d0"
      and flag: "resume d0 = 0 \<or> state (acpi_data d0) = index"
      and first: "acpi_cpufreq_target hw0 policy index k0 = Some (0, k)"
      by blast
    from first show ?thesis
    proof (cases rule: target_returns_cases)
      case race
      with first show ?thesis
        by (simp add: target_race EAGAIN_def)
    next
      case (fast d')
      with first entry assms(3) show ?thesis
        by (simp add: target_fast)
    next
      case (commit d')
      then have d': "d' = d0"
        using entry by simp
      from target_commit [OF commit] first commit(1) assms(3) flag
      show ?thesis
        unfolding d' by (auto simp add: Let_def ENODEV_def split: if_splits)
    qed
  qed
  with assms(1,2,3) show ?thesis
    by (simp add: target_fast)
qed

text \<open>
  One such call: state 0 is asked for a second time. After \<open>init\<close> the first call for
  state 0 has committed it and cleared the flag; the second call changes nothing.
\<close>

theorem target_idempotent_witness:
  "smp_processor_id ex_hw = cpu ex_policy \<and>
   cpu ex_policy < length (acpi_io_data ex_synced) \<and>
   acpi_io_data ex_synced ! cpu ex_policy = Some ex_data_synced \<and>
   state (acpi_data ex_data_synced) = 0 \<and> resume ex_data_synced = 0 \<and>
   acpi_cpufreq_target ex_hw ex_policy 0 ex_synced = Some (0, ex_synced) \<and>
   acpi_io_data ex_active ! cpu ex_policy = Some ex_data \<and>
   state (acpi_data ex_data) = 0 \<and>
   acpi_cpufreq_target ex_hw ex_policy 0 ex_active = Some (0, ex_synced)"
proof -
  have h1: "smp_processor_id ex_hw = cpu ex_policy"
    by code_simp
  have h2: "cpu ex_policy < length (acpi_io_data ex_synced)"
    by code_simp
  have h3: "acpi_io_data ex_synced ! cpu ex_policy = Some ex_data_synced"
    by code_simp
  have h4: "state (acpi_data ex_data_synced) = 0" "resume ex_data_synced = 0"
    by code_simp+
  have g1: "acpi_io_data ex_active ! cpu ex_policy = Some ex_data"
    by code_simp
  have g2: "state (acpi_data ex_data) = 0"
    by code_simp
  have g3: "acpi_cpufreq_target ex_hw ex_policy 0 ex_active = Some (0, ex_synced)"
    by code_simp
  have second: "\<exists>hw0 k0 d0. acpi_io_data k0 ! cpu ex_policy = Some d0 \<and>
      (resume d0 = 0 \<or> state (acpi_data d0) = 0) \<and>
      acpi_cpufreq_target hw0 ex_policy 0 k0 = Some (0, ex_synced)"
    using g1 g2 g3 by blast
  from target_idempotent [OF h1 h2 h3 disjI2, OF second] h1 h2 h3 h4 g1 g2 g3
  show ?thesis
    by simp
qed

text \<open>
  Without the pin it is not so: at the target and with the flag down, a call that lost
  the race for the processor returns \<open>-EAGAIN\<close>. And after \<open>init\<close> a successful
  call for state 2 leaves the flag up, so that a second call for state 2 commits the
  value \<open>0xA2\<close> once more.
\<close>

theorem target_idempotent_counterexample:
  "acpi_io_data ex_synced ! cpu ex_policy = Some ex_data_synced \<and>
   state (acpi_data ex_data_synced) = 0 \<and> resume ex_data_synced = 0 \<and>
   acpi_cpufreq_target ex_hw_race ex_policy 0 ex_synced = Some (- EAGAIN, ex_synced) \<and>
   - EAGAIN \<noteq> (0 :: s32) \<and>
   acpi_cpufreq_target ex_hw ex_policy 2 ex_active = Some (0, ex_moved) \<and>
   acpi_cpufreq_target ex_hw ex_policy 2 ex_moved = Some (0, ex_moved_synced) \<and>
   pal_set_pstate_calls ex_moved_synced = pal_set_pstate_calls ex_moved @ [0xA2] \<and>
   ex_moved_synced \<noteq> ex_moved"
  by code_simp


subsection \<open>The flag \<open>resume\<close>\<close>

text \<open>What the callbacks do to the entries of \<open>acpi_io_data\<close>.\<close>

lemma target_entry:
  assumes "acpi_cpufreq_target hw policy index k = Some (retval, k')"
    and "acpi_io_data k ! cpu policy = Some d"
  shows "\<exists>d'. acpi_io_data k' ! cpu policy = Some d' \<and>
           (resume d' \<noteq> resume d \<longrightarrow>
              index = state (acpi_data d) \<and> resume d \<noteq> 0 \<and> resume d' = 0)"
  using assms(1)
proof (cases rule: target_returns_cases)
  case race
  with assms show ?thesis
    by (simp add: target_race)
next
  case (fast d0)
  with assms show ?thesis
    by (simp add: target_fast)
next
  case (commit d0)
  then have d0: "d0 = d"
    using assms(2) by simp
  from target_commit [OF commit] assms(1) commit(1)
  show ?thesis
    unfolding d0 by (auto simp add: Let_def split: if_splits)
qed

lemma target_other_entries:
  assumes "acpi_cpufreq_target hw policy index k = Some (retval, k')"
    and "p \<noteq> cpu policy"
  shows "acpi_io_data k' ! p = acpi_io_data k ! p"
  using assms(1)
proof (cases rule: target_returns_cases)
  case race
  with assms show ?thesis
    by (simp add: target_race)
next
  case (fast d0)
  with assms show ?thesis
    by (simp add: target_fast)
next
  case (commit d0)
  from target_commit [OF commit] assms show ?thesis
    by (auto simp add: Let_def split: if_splits)
qed

lemma init_entries:
  assumes "acpi_cpufreq_cpu_init hw policy k = Some (result, policy', k')"
  shows "acpi_io_data k' = acpi_io_data k \<or>
         acpi_io_data k' = (acpi_io_data k)[cpu policy := None] \<or>
         (\<exists>d. acpi_io_data k' = (acpi_io_data k)[cpu policy := Some d] \<and> resume d = 1)"
  using assms
  by (auto simp add: acpi_cpufreq_cpu_init_def Let_def split: if_splits prod.splits)

lemma exit_entries:
  assumes "acpi_cpufreq_cpu_exit policy k = Some (result, k')"
  shows "acpi_io_data k' = acpi_io_data k \<or>
         acpi_io_data k' = (acpi_io_data k)[cpu policy := None]"
  using assms
  by (auto simp add: acpi_cpufreq_cpu_exit_def split: if_splits option.splits)

lemma nth_update_cases: "xs[q := e] ! p = e \<or> xs[q := e] ! p = xs ! p"
  by (cases "p = q"; cases "q < length xs") (simp_all add: list_update_beyond)

lemma init_flag:
  assumes "acpi_cpufreq_cpu_init hw policy k = Some (result, policy', k')"
    and "acpi_io_data k' ! p = Some d'"
  shows "acpi_io_data k ! p = Some d' \<or> resume d' = 1"
  using init_entries [OF assms(1)] assms(2)
    nth_update_cases [of "acpi_io_data k" "cpu policy" _ p]
  by (elim disjE exE conjE) (metis option.distinct(1) option.inject)+

lemma exit_flag:
  assumes "acpi_cpufreq_cpu_exit policy k = Some (result, k')"
    and "acpi_io_data k' ! p = Some d'"
  shows "acpi_io_data k ! p = Some d'"
  using exit_entries [OF assms(1)] assms(2)
    nth_update_cases [of "acpi_io_data k" "cpu policy" None p]
  by (elim disjE) simp_all

lemma flag_cleared_by_target:
  assumes "acpi_cpufreq_driver c k = Some k'"
    and "acpi_io_data k ! p = Some d" and "resume d \<noteq> 0"
    and "acpi_io_data k' ! p = Some d'" and "resume d' = 0"
  shows "\<exists>hw policy. c = Target hw policy (state (acpi_data d)) \<and> cpu policy = p"
proof (cases c)
  case (Init hw policy)
  with assms(1) obtain result policy' where
    "acpi_cpufreq_cpu_init hw policy k = Some (result, policy', k')"
    by auto
  from init_flag [OF this assms(4)] assms(2,3,5) have False
    by auto
  then show ?thesis ..
next
  case (Exit policy)
  with assms(1) obtain result where "acpi_cpufreq_cpu_exit policy k = Some (result, k')"
    by auto
  from exit_flag [OF this assms(4)] assms(2,3,5) have False
    by auto
  then show ?thesis ..
next
  case (Get hw q)
  with assms(1) obtain freq where "acpi_cpufreq_get hw q k = Some (freq, k')"
    by auto
  then have "k' = k"
    by (rule get_returns_same_kernel)
  with assms(2-5) have False
    by auto
  then show ?thesis ..
next
  case (Target hw policy index)
  with assms(1) obtain retval where
    call: "acpi_cpufreq_target hw policy index k = Some (retval, k')"
    by auto
  have here: "cpu policy = p"
  proof (rule ccontr)
    assume "cpu policy \<noteq> p"
    then have "acpi_io_data k' ! p = acpi_io_data k ! p"
      using target_other_entries [OF call, of p] by simp
    with assms(2-5) show False
      by auto
  qed
  with target_entry [OF call, of d] assms(2-5) have "index = state (acpi_data d)"
    by auto
  with Target here show ?thesis
    by simp
qed



text \<open>
  C4, as the code has it. After a successful \<open>acpi_cpufreq_cpu_init\<close> the flag
  \<open>resume\<close> of the entry is up. If the pin succeeds, the first
  \<open>acpi_cpufreq_target\<close> for the current state (a valid index) hands the value of that
  state to the PAL, whatever the PAL answers, and afterwards the flag is down and the
  current state is still the target.
\<close>

theorem first_target_resynchronizes:
  assumes "acpi_cpufreq_cpu_init hw0 policy k0 = Some (0, policy1, k1)"
    and "acpi_io_data k1 ! cpu policy = Some d"
    and "index = state (acpi_data d)"
    and "valid_index d index"
    and "smp_processor_id hw = cpu policy"
  shows "resume d \<noteq> 0 \<and>
     (\<exists>retval k2 d2. acpi_cpufreq_target hw policy1 index k1 = Some (retval, k2) \<and>
        pal_set_pstate_calls k2 = pal_set_pstate_calls k1 @ [pstate_value d index] \<and>
        acpi_io_data k2 ! cpu policy = Some d2 \<and>
        resume d2 = 0 \<and> state (acpi_data d2) = index)"
proof -
  have flag: "resume d \<noteq> 0"
    using init_entry [OF assms(1,2)] by simp
  have same: "cpu policy1 = cpu policy"
    using assms(1) by (rule init_success)
  have len: "cpu policy1 < length (acpi_io_data k1)"
    using init_success [OF assms(1)] by simp
  have entry: "acpi_io_data k1 ! cpu policy1 = Some d"
    using assms(2) same by simp
  have pinned: "smp_processor_id hw = cpu policy1"
    using assms(5) same by simp
  have slow: "index = state (acpi_data d) \<longrightarrow> resume d \<noteq> 0"
    using flag by simp
  from target_commit [OF len entry pinned assms(4) slow] len same assms(3) flag
  show ?thesis
    by (auto simp add: Let_def)
qed

text \<open>The scenario of the specification; the PAL even refuses the value.\<close>

theorem first_target_resynchronizes_witness:
  "acpi_cpufreq_cpu_init ex_hw ex_policy ex_kernel = Some (0, ex_policy_active, ex_active) \<and>
   acpi_io_data ex_active ! cpu ex_policy = Some ex_data \<and>
   0 = state (acpi_data ex_data) \<and>
   valid_index ex_data 0 \<and>
   smp_processor_id ex_hw_fail = cpu ex_policy \<and>
   resume ex_data \<noteq> 0 \<and>
   (\<exists>retval k2 d2. acpi_cpufreq_target ex_hw_fail ex_policy_active 0 ex_active = Some (retval, k2) \<and>
      pal_set_pstate_calls k2 = pal_set_pstate_calls ex_active @ [pstate_value ex_data 0] \<and>
      acpi_io_data k2 ! cpu ex_policy = Some d2 \<and>
      resume d2 = 0 \<and> state (acpi_data d2) = 0)"
proof -
  have h1: "acpi_cpufreq_cpu_init ex_hw ex_policy ex_kernel = Some (0, ex_policy_active, ex_active)"
    by code_simp
  have h2: "acpi_io_data ex_active ! cpu ex_policy = Some ex_data"
    by code_simp
  have h3: "0 = state (acpi_data ex_data)"
    by code_simp
  have h4: "valid_index ex_data 0"
    by (simp add: valid_index_def ex_data_def ex_perf_def)
  have h5: "smp_processor_id ex_hw_fail = cpu ex_policy"
    by code_simp
  from first_target_resynchronizes [OF h1 h2 h3 h4 h5] h1 h2 h3 h4 h5
  show ?thesis
    by blast
qed

text \<open>
  Without the pin it is not so: the first call after \<open>init\<close>, for the current state
  0, loses the race for the processor, returns \<open>-EAGAIN\<close>, commits nothing and leaves
  the flag at 1.
\<close>

theorem first_target_resynchronizes_counterexample:
  "acpi_cpufreq_cpu_init ex_hw ex_policy ex_kernel = Some (0, ex_policy_active, ex_active) \<and>
   acpi_io_data ex_active ! cpu ex_policy = Some ex_data \<and>
   state (acpi_data ex_data) = 0 \<and>
   resume ex_data = 1 \<and>
   acpi_cpufreq_target ex_hw_race ex_policy_active 0 ex_active = Some (- EAGAIN, ex_active) \<and>
   pal_set_pstate_calls ex_active = []"
  by code_simp

text \<open>
  C10. Whenever a call of the driver takes the flag \<open>resume\<close> of an entry from up to
  down, the call is \<open>acpi_cpufreq_target\<close> for the processor of the entry with the
  current state as the target index. An \<open>acpi_cpufreq_target\<close> for another index that
  returns, with whatever result, leaves the flag as it is. So after a successful
  \<open>acpi_cpufreq_cpu_init\<close> and one \<open>acpi_cpufreq_target\<close> that returns 0 for an index
  other than the current state, the current state is that index and the flag is still up.
\<close>

theorem resume_cleared_only_by_target_of_current:
  "(acpi_cpufreq_driver c k = Some k' \<and>
    acpi_io_data k ! p = Some d \<and> resume d \<noteq> 0 \<and>
    acpi_io_data k' ! p = Some d' \<and> resume d' = 0 \<longrightarrow>
      (\<exists>hw policy. c = Target hw policy (state (acpi_data d)) \<and> cpu policy = p)) \<and>
   (acpi_io_data ka ! cpu pol = Some da \<and> idx \<noteq> state (acpi_data da) \<and>
    acpi_cpufreq_target hwa pol idx ka = Some (retval, kb) \<longrightarrow>
      (\<exists>db. acpi_io_data kb ! cpu pol = Some db \<and> resume db = resume da)) \<and>
   (acpi_cpufreq_cpu_init hwi poli ki = Some (0, poli', kj) \<and>
    acpi_io_data kj ! cpu poli = Some dj \<and> idj \<noteq> state (acpi_data dj) \<and>
    acpi_cpufreq_target hwj poli' idj kj = Some (0, kl) \<longrightarrow>
      (\<exists>dl. acpi_io_data kl ! cpu poli = Some dl \<and>
         state (acpi_data dl) = idj \<and> resume dl \<noteq> 0))"
proof (intro conjI impI)
  assume "acpi_cpufreq_driver c k = Some k' \<and>
    acpi_io_data k ! p = Some d \<and> resume d \<noteq> 0 \<and>
    acpi_io_data k' ! p = Some d' \<and> resume d' = 0"
  then show "\<exists>hw policy. c = Target hw policy (state (acpi_data d)) \<and> cpu policy = p"
    by (blast intro: flag_cleared_by_target)
next
  assume "acpi_io_data ka ! cpu pol = Some da \<and> idx \<noteq> state (acpi_data da) \<and>
    acpi_cpufreq_target hwa pol idx ka = Some (retval, kb)"
  then have entry: "acpi_io_data ka ! cpu pol = Some da"
    and other: "idx \<noteq> state (acpi_data da)"
    and call: "acpi_cpufreq_target hwa pol idx ka = Some (retval, kb)"
    by simp_all
  from target_entry [OF call entry] other
  show "\<exists>db. acpi_io_data kb ! cpu pol = Some db \<and> resume db = resume da"
    by auto
next
  assume "acpi_cpufreq_cpu_init hwi poli ki = Some (0, poli', kj) \<and>
    acpi_io_data kj ! cpu poli = Some dj \<and> idj \<noteq> state (acpi_data dj) \<and>
    acpi_cpufreq_target hwj poli' idj kj = Some (0, kl)"
  then have init: "acpi_cpufreq_cpu_init hwi poli ki = Some (0, poli', kj)"
    and entry: "acpi_io_data kj ! cpu poli = Some dj"
    and other: "idj \<noteq> state (acpi_data dj)"
    and call: "acpi_cpufreq_target hwj poli' idj kj = Some (0, kl)"
    by simp_all
  have flag: "resume dj = 1"
    using init entry by (rule init_entry)
  have same: "cpu poli' = cpu poli"
    using init by (rule init_success)
  from call show "\<exists>dl. acpi_io_data kl ! cpu poli = Some dl \<and>
         state (acpi_data dl) = idj \<and> resume dl \<noteq> 0"
  proof (cases rule: target_returns_cases)
    case race
    with call show ?thesis
      by (simp add: target_race EAGAIN_def)
  next
    case (fast d0)
    with entry other same show ?thesis
      by simp
  next
    case (commit d0)
    then have d0: "d0 = dj"
      using entry same by simp
    from target_commit [OF commit] call commit(1) other flag same
    show ?thesis
      unfolding d0 by (auto simp add: Let_def ENODEV_def split: if_splits)
  qed
qed

theorem resume_cleared_only_by_target_of_current_witness:
  "acpi_cpufreq_driver (Target ex_hw ex_policy 0) ex_active = Some ex_synced \<and>
   acpi_io_data ex_active ! 1 = Some ex_data \<and> resume ex_data \<noteq> 0 \<and>
   acpi_io_data ex_synced ! 1 = Some ex_data_synced \<and> resume ex_data_synced = 0 \<and>
   (\<exists>hw policy. Target ex_hw ex_policy 0 = Target hw policy (state (acpi_data ex_data)) \<and>
      cpu policy = 1) \<and>
   acpi_io_data ex_active ! cpu ex_policy_active = Some ex_data \<and>
   2 \<noteq> state (acpi_data ex_data) \<and>
   acpi_cpufreq_target ex_hw ex_policy_active 2 ex_active = Some (0, ex_moved) \<and>
   (\<exists>db. acpi_io_data ex_moved ! cpu ex_policy_active = Some db \<and> resume db = resume ex_data) \<and>
   acpi_cpufreq_cpu_init ex_hw ex_policy ex_kernel = Some (0, ex_policy_active, ex_active) \<and>
   acpi_io_data ex_active ! cpu ex_policy = Some ex_data \<and>
   (\<exists>dl. acpi_io_data ex_moved ! cpu ex_policy = Some dl \<and>
      state (acpi_data dl) = 2 \<and> resume dl \<noteq> 0)"
proof -
  have c1: "acpi_cpufreq_driver (Target ex_hw ex_policy 0) ex_active = Some ex_synced"
    by code_simp
  have c2: "acpi_io_data ex_active ! 1 = Some ex_data" "resume ex_data \<noteq> 0"
    by code_simp+
  have c3: "acpi_io_data ex_synced ! 1 = Some ex_data_synced" "resume ex_data_synced = 0"
    by code_simp+
  have h1: "acpi_io_data ex_active ! cpu ex_policy_active = Some ex_data"
    by code_simp
  have h2: "acpi_cpufreq_target ex_hw ex_policy_active 2 ex_active = Some (0, ex_moved)"
    by code_simp
  have h3: "2 \<noteq> state (acpi_data ex_data)"
    by code_simp
  have h4: "acpi_cpufreq_cpu_init ex_hw ex_policy ex_kernel = Some (0, ex_policy_active, ex_active)"
    by code_simp
  have h5: "acpi_io_data ex_active ! cpu ex_policy = Some ex_data"
    by code_simp
  note inst = resume_cleared_only_by_target_of_current
    [where c = "Target ex_hw ex_policy 0" and k = ex_active and k' = ex_synced and p = 1
       and d = ex_data and d' = ex_data_synced
       and ka = ex_active and pol = ex_policy_active and da = ex_data and hwa = ex_hw
       and idx = 2 and retval = 0 and kb = ex_moved
       and hwi = ex_hw and poli = ex_policy and ki = ex_kernel
       and poli' = ex_policy_active and kj = ex_active and dj = ex_data
       and idj = 2 and hwj = ex_hw and kl = ex_moved]
  from inst c1 c2 c3
  have r1: "\<exists>hw policy. Target ex_hw ex_policy 0 = Target hw policy (state (acpi_data ex_data)) \<and>
      cpu policy = 1"
    by blast
  from inst h1 h2 h3
  have r2: "\<exists>db. acpi_io_data ex_moved ! cpu ex_policy_active = Some db \<and>
      resume db = resume ex_data"
    by blast
  from inst h2 h3 h4 h5
  have r3: "\<exists>dl. acpi_io_data ex_moved ! cpu ex_policy = Some dl \<and>
      state (acpi_data dl) = 2 \<and> resume dl \<noteq> 0"
    by blast
  from c1 c2 c3 h1 h2 h3 h4 h5 r1 r2 r3 show ?thesis
    by blast
qed

subsection \<open>The frequency query\<close>

text \<open>
  C5, as the code has it. For a processor with an entry whose table holds its
  \<open>state_count\<close> states, at least one: when the pin succeeds and
  \<open>processor_get_pstate\<close> returns 0 with the status \<open>val\<close>, \<open>acpi_cpufreq_get\<close>
  returns the frequency of the first state of the table whose status is \<open>val\<close>, or of
  the last state when there is none, times 1000 modulo \<open>2 ^ 32\<close>.
\<close>

theorem get_frequency:
  assumes "c < length (acpi_io_data k)"
    and "acpi_io_data k ! c = Some d"
    and "length (states (acpi_data d)) = unat (state_count (acpi_data d))"
    and "states (acpi_data d) \<noteq> []"
    and "smp_processor_id hw = c"
    and "processor_get_pstate hw = (0, val)"
  shows "\<exists>freq. acpi_cpufreq_get hw c k = Some (freq, k) \<and>
     unat freq =
       unat (core_frequency
         (case find (\<lambda>p. status p = ucast val) (states (acpi_data d)) of
            Some p \<Rightarrow> p
          | None \<Rightarrow> last (states (acpi_data d)))) * 1000 mod 2 ^ 32"
  using get_read [OF assms(1,2,5,6)]
  by (simp add: extract_clock_from_find [OF assms(3,4)] unat_hz)

text \<open>
  The two lookups of the specification: the status \<open>0x20\<close> is that of the second
  state, the status \<open>0x99\<close> is in no state and gives the last one.
\<close>

theorem get_frequency_witness:
  "1 < length (acpi_io_data ex_synced) \<and>
   acpi_io_data ex_synced ! 1 = Some ex_data_synced \<and>
   length (states (acpi_data ex_data_synced)) = unat (state_count (acpi_data ex_data_synced)) \<and>
   states (acpi_data ex_data_synced) \<noteq> [] \<and>
   smp_processor_id ex_hw = 1 \<and>
   processor_get_pstate ex_hw = (0, 0x20) \<and>
   (\<exists>freq. acpi_cpufreq_get ex_hw 1 ex_synced = Some (freq, ex_synced) \<and> unat freq = 2600000) \<and>
   smp_processor_id ex_hw_unknown = 1 \<and>
   processor_get_pstate ex_hw_unknown = (0, 0x99) \<and>
   (\<exists>freq. acpi_cpufreq_get ex_hw_unknown 1 ex_synced = Some (freq, ex_synced) \<and>
      unat freq = 1800000)"
proof -
  have h1: "1 < length (acpi_io_data ex_synced)"
    by (simp add: ex_synced_def)
  have h2: "acpi_io_data ex_synced ! 1 = Some ex_data_synced"
    by (simp add: ex_synced_def)
  have h3: "length (states (acpi_data ex_data_synced)) =
      unat (state_count (acpi_data ex_data_synced))"
    by (simp add: ex_data_synced_def ex_perf_def)
  have h4: "states (acpi_data ex_data_synced) \<noteq> []"
    by (simp add: ex_data_synced_def ex_perf_def)
  have h5: "smp_processor_id ex_hw = 1"
    by (simp add: ex_hw_def)
  have h6: "processor_get_pstate ex_hw = (0, 0x20)"
    by (simp add: processor_get_pstate_def ex_hw_def)
  have g5: "smp_processor_id ex_hw_unknown = 1"
    by (simp add: ex_hw_unknown_def ex_hw_def)
  have g6: "processor_get_pstate ex_hw_unknown = (0, 0x99)"
    by (simp add: processor_get_pstate_def ex_hw_unknown_def ex_hw_def)
  have hit: "\<exists>freq. acpi_cpufreq_get ex_hw 1 ex_synced = Some (freq, ex_synced) \<and>
      unat freq = 2600000"
    using get_frequency [OF h1 h2 h3 h4 h5 h6]
    by (simp add: ex_data_synced_def ex_perf_def ex_px_def)
  have miss: "\<exists>freq. acpi_cpufreq_get ex_hw_unknown 1 ex_synced = Some (freq, ex_synced) \<and>
      unat freq = 1800000"
    using get_frequency [OF h1 h2 h3 h4 g5 g6]
    by (simp add: ex_data_synced_def ex_perf_def ex_px_def)
  from h1 h2 h3 h4 h5 h6 g5 g6 hit miss show ?thesis
    by blast
qed

text \<open>
  The product itself is not what comes back when it does not fit into 32 bits: for the
  state with status \<open>0x20\<close> and frequency 4294968 the query returns 704.
\<close>

theorem get_frequency_counterexample:
  "acpi_io_data ex_huge ! 1 = Some ex_data_huge \<and>
   processor_get_pstate ex_hw = (0, 0x20) \<and>
   find (\<lambda>p. status p = 0x20) (states (acpi_data ex_data_huge)) = Some (ex_px 4294968 0xA1 0x20) \<and>
   acpi_cpufreq_get ex_hw 1 ex_huge = Some (704, ex_huge) \<and>
   unat (core_frequency (ex_px 4294968 0xA1 0x20)) * 1000 = 4294968000 \<and>
   unat (704 :: u32) \<noteq> 4294968000"
proof -
  have "acpi_cpufreq_get ex_hw 1 ex_huge = Some (704, ex_huge)"
    by code_simp
  moreover have "acpi_io_data ex_huge ! 1 = Some ex_data_huge"
    by (simp add: ex_huge_def)
  moreover have "processor_get_pstate ex_hw = (0, 0x20)"
    by (simp add: processor_get_pstate_def ex_hw_def)
  moreover have "find (\<lambda>p. status p = 0x20) (states (acpi_data ex_data_huge)) =
      Some (ex_px 4294968 0xA1 0x20)"
    by (simp add: ex_data_huge_def ex_perf_def ex_px_def)
  moreover have "unat (core_frequency (ex_px 4294968 0xA1 0x20)) * 1000 = 4294968000"
    by (simp add: ex_px_def)
  moreover have "unat (704 :: u32) \<noteq> 4294968000"
    by simp
  ultimately show ?thesis
    by blast
qed


text \<open>
  C6. For a processor of the machine: when the pin fails or \<open>processor_get_pstate\<close>
  returns a value other than 0, \<open>acpi_cpufreq_get\<close> returns 0 and the kernel state is
  what it was; and no call of \<open>acpi_cpufreq_get\<close> that returns changes
  \<open>acpi_io_data\<close>.
\<close>

theorem get_failure_reports_zero:
  assumes "c < length (acpi_io_data k)"
  shows "(smp_processor_id hw \<noteq> c \<or> fst (processor_get_pstate hw) \<noteq> 0 \<longrightarrow>
            acpi_cpufreq_get hw c k = Some (0, k)) \<and>
         (\<forall>freq k'. acpi_cpufreq_get hw c k = Some (freq, k') \<longrightarrow>
            acpi_io_data k' = acpi_io_data k)"
proof (intro conjI impI allI)
  assume "smp_processor_id hw \<noteq> c \<or> fst (processor_get_pstate hw) \<noteq> 0"
  with assms show "acpi_cpufreq_get hw c k = Some (0, k)"
    by (rule get_unavailable)
next
  fix freq k'
  assume "acpi_cpufreq_get hw c k = Some (freq, k')"
  then have "k' = k"
    by (rule get_returns_same_kernel)
  then show "acpi_io_data k' = acpi_io_data k"
    by simp
qed

theorem get_failure_reports_zero_witness:
  "1 < length (acpi_io_data ex_synced) \<and>
   fst (processor_get_pstate ex_hw_fail) \<noteq> 0 \<and>
   acpi_cpufreq_get ex_hw_fail 1 ex_synced = Some (0, ex_synced) \<and>
   smp_processor_id ex_hw_race \<noteq> 1 \<and>
   acpi_cpufreq_get ex_hw_race 1 ex_synced = Some (0, ex_synced) \<and>
   (\<exists>k'. acpi_cpufreq_get ex_hw 1 ex_synced = Some (2600000, k') \<and>
      acpi_io_data k' = acpi_io_data ex_synced)"
proof -
  have h1: "1 < length (acpi_io_data ex_synced)"
    by (simp add: ex_synced_def)
  have h2: "fst (processor_get_pstate ex_hw_fail) \<noteq> 0"
    by (simp add: processor_get_pstate_def ex_hw_fail_def ex_hw_def)
  have h3: "smp_processor_id ex_hw_race \<noteq> 1"
    by (simp add: ex_hw_race_def ex_hw_def)
  have h4: "acpi_cpufreq_get ex_hw 1 ex_synced = Some (2600000, ex_synced)"
    by code_simp
  from get_failure_reports_zero [OF h1, of ex_hw_fail] h2
  have fail: "acpi_cpufreq_get ex_hw_fail 1 ex_synced = Some (0, ex_synced)"
    by simp
  from get_failure_reports_zero [OF h1, of ex_hw_race] h3
  have race: "acpi_cpufreq_get ex_hw_race 1 ex_synced = Some (0, ex_synced)"
    by simp
  from get_failure_reports_zero [OF h1, of ex_hw] h4
  have "\<exists>k'. acpi_cpufreq_get ex_hw 1 ex_synced = Some (2600000, k') \<and>
      acpi_io_data k' = acpi_io_data ex_synced"
    by simp
  with h1 h2 h3 fail race show ?thesis
    by simp
qed

subsection \<open>Activation\<close>

text \<open>
  C7. When the data of the processor is allocated and ACPI delivers fewer than two
  states, \<open>acpi_cpufreq_cpu_init\<close> returns \<open>-ENODEV\<close>, the error of a processor
  without P-states, and the slot of the processor is NULL afterwards.
\<close>

theorem init_rejects_too_few_states:
  assumes "kzalloc_data hw"
    and "cpu policy < length (acpi_io_data k)"
    and "acpi_processor_register_performance hw (cpu policy) = (0, perf)"
    and "unat (state_count perf) < 2"
  shows "\<exists>k'. acpi_cpufreq_cpu_init hw policy k = Some (- ENODEV, policy, k') \<and>
           acpi_io_data k' ! cpu policy = None"
  using assms word_le_one [OF assms(4)]
  by (simp add: acpi_cpufreq_cpu_init_def Let_def)

theorem init_rejects_too_few_states_witness:
  "kzalloc_data ex_hw_single \<and>
   cpu ex_policy < length (acpi_io_data ex_kernel) \<and>
   acpi_processor_register_performance ex_hw_single (cpu ex_policy) =
     (0, ex_perf\<lparr>state_count := 1, states := [ex_px 3000 0xA0 0x10]\<rparr>) \<and>
   unat (state_count (ex_perf\<lparr>state_count := 1, states := [ex_px 3000 0xA0 0x10]\<rparr>)) < 2 \<and>
   (\<exists>k'. acpi_cpufreq_cpu_init ex_hw_single ex_policy ex_kernel = Some (- ENODEV, ex_policy, k') \<and>
      acpi_io_data k' ! cpu ex_policy = None)"
proof -
  have h1: "kzalloc_data ex_hw_single"
    by (simp add: ex_hw_single_def ex_hw_def)
  have h2: "cpu ex_policy < length (acpi_io_data ex_kernel)"
    by (simp add: ex_policy_def ex_kernel_def)
  have h3: "acpi_processor_register_performance ex_hw_single (cpu ex_policy) =
     (0, ex_perf\<lparr>state_count := 1, states := [ex_px 3000 0xA0 0x10]\<rparr>)"
    by (simp add: ex_hw_single_def ex_hw_def)
  have h4: "unat (state_count (ex_perf\<lparr>state_count := 1, states := [ex_px 3000 0xA0 0x10]\<rparr>)) < 2"
    by simp
  from init_rejects_too_few_states [OF h1 h2 h3 h4] h1 h2 h3 h4 show ?thesis
    by blast
qed

text \<open>
  C8. When the data of the processor is allocated and ACPI delivers a control register or
  a status register whose address space is not \<open>ACPI_ADR_SPACE_FIXED_HARDWARE\<close>,
  \<open>acpi_cpufreq_cpu_init\<close> returns \<open>-ENODEV\<close>, the error of an unsupported address
  space, and the slot of the processor is NULL afterwards.
\<close>

theorem init_rejects_address_space:
  assumes "kzalloc_data hw"
    and "cpu policy < length (acpi_io_data k)"
    and "acpi_processor_register_performance hw (cpu policy) = (0, perf)"
    and "space_id (control_register perf) \<noteq> ACPI_ADR_SPACE_FIXED_HARDWARE \<or>
         space_id (status_register perf) \<noteq> ACPI_ADR_SPACE_FIXED_HARDWARE"
  shows "\<exists>k'. acpi_cpufreq_cpu_init hw policy k = Some (- ENODEV, policy, k') \<and>
           acpi_io_data k' ! cpu policy = None"
  using assms
  by (auto simp add: acpi_cpufreq_cpu_init_def Let_def)

theorem init_rejects_address_space_witness:
  "kzalloc_data ex_hw_sysio \<and>
   cpu ex_policy < length (acpi_io_data ex_kernel) \<and>
   acpi_processor_register_performance ex_hw_sysio (cpu ex_policy) =
     (0, ex_perf\<lparr>control_register := \<lparr>space_id = 1\<rparr>\<rparr>) \<and>
   space_id (control_register (ex_perf\<lparr>control_register := \<lparr>space_id = 1\<rparr>\<rparr>)) \<noteq>
     ACPI_ADR_SPACE_FIXED_HARDWARE \<and>
   (\<exists>k'. acpi_cpufreq_cpu_init ex_hw_sysio ex_policy ex_kernel = Some (- ENODEV, ex_policy, k') \<and>
      acpi_io_data k' ! cpu ex_policy = None)"
proof -
  have h1: "kzalloc_data ex_hw_sysio"
    by (simp add: ex_hw_sysio_def ex_hw_def)
  have h2: "cpu ex_policy < length (acpi_io_data ex_kernel)"
    by (simp add: ex_policy_def ex_kernel_def)
  have h3: "acpi_processor_register_performance ex_hw_sysio (cpu ex_policy) =
     (0, ex_perf\<lparr>control_register := \<lparr>space_id = 1\<rparr>\<rparr>)"
    by (simp add: ex_hw_sysio_def ex_hw_def)
  have h4: "space_id (control_register (ex_perf\<lparr>control_register := \<lparr>space_id = 1\<rparr>\<rparr>)) \<noteq>
     ACPI_ADR_SPACE_FIXED_HARDWARE"
    by (simp add: ACPI_ADR_SPACE_FIXED_HARDWARE_def)
  from init_rejects_address_space [OF h1 h2 h3 disjI1, OF h4] h1 h2 h3 h4 show ?thesis
    by blast
qed

subsection \<open>The affinity mask\<close>

text \<open>
  C9. Whenever \<open>acpi_cpufreq_target\<close> or \<open>acpi_cpufreq_get\<close> returns, on whichever
  path, the affinity mask of the calling task is the mask from before the call. (That
  they return is \<open>target_returns\<close> and \<open>get_returns\<close>.)
\<close>

theorem affinity_restored:
  "(acpi_cpufreq_target hw policy index k = Some (retval, k') \<longrightarrow>
      cpus_allowed k' = cpus_allowed k) \<and>
   (acpi_cpufreq_get hw c k = Some (freq, k'') \<longrightarrow>
      cpus_allowed k'' = cpus_allowed k)"
proof (intro conjI impI)
  assume call: "acpi_cpufreq_target hw policy index k = Some (retval, k')"
  then show "cpus_allowed k' = cpus_allowed k"
  proof (cases rule: target_returns_cases)
    case race
    with call show ?thesis
      by (simp add: target_race)
  next
    case (fast d)
    with call show ?thesis
      by (simp add: target_fast)
  next
    case (commit d)
    from target_commit [OF commit] call show ?thesis
      by (auto simp add: Let_def split: if_splits)
  qed
next
  assume "acpi_cpufreq_get hw c k = Some (freq, k'')"
  then have "k'' = k"
    by (rule get_returns_same_kernel)
  then show "cpus_allowed k'' = cpus_allowed k"
    by simp
qed

text \<open>
  The three exits of each callback: success, a refusal by the PAL, a lost race for the
  processor.
\<close>

theorem affinity_restored_witness:
  "acpi_cpufreq_target ex_hw ex_policy 2 ex_active = Some (0, ex_moved) \<and>
   cpus_allowed ex_moved = cpus_allowed ex_active \<and>
   acpi_cpufreq_target ex_hw_fail ex_policy 2 ex_synced = Some (- ENODEV, ex_refused) \<and>
   cpus_allowed ex_refused = cpus_allowed ex_synced \<and>
   acpi_cpufreq_target ex_hw_race ex_policy 2 ex_synced = Some (- EAGAIN, ex_synced) \<and>
   acpi_cpufreq_get ex_hw 1 ex_active = Some (2600000, ex_active) \<and>
   acpi_cpufreq_get ex_hw_fail 1 ex_active = Some (0, ex_active) \<and>
   acpi_cpufreq_get ex_hw_race 1 ex_active = Some (0, ex_active) \<and>
   cpus_allowed ex_active = {0, 1, 2, 3}"
proof -
  have t1: "acpi_cpufreq_target ex_hw ex_policy 2 ex_active = Some (0, ex_moved)"
    by code_simp
  have t2: "acpi_cpufreq_target ex_hw_fail ex_policy 2 ex_synced = Some (- ENODEV, ex_refused)"
    by code_simp
  have t3: "acpi_cpufreq_target ex_hw_race ex_policy 2 ex_synced = Some (- EAGAIN, ex_synced)"
    by code_simp
  have g1: "acpi_cpufreq_get ex_hw 1 ex_active = Some (2600000, ex_active)"
    by code_simp
  have g2: "acpi_cpufreq_get ex_hw_fail 1 ex_active = Some (0, ex_active)"
    by code_simp
  have g3: "acpi_cpufreq_get ex_hw_race 1 ex_active = Some (0, ex_active)"
    by code_simp
  have m: "cpus_allowed ex_active = {0, 1, 2, 3}"
    by (simp add: ex_active_def ex_kernel_def)
  from affinity_restored [of ex_hw ex_policy 2 ex_active 0 ex_moved] t1
  have r1: "cpus_allowed ex_moved = cpus_allowed ex_active"
    by simp
  from affinity_restored [of ex_hw_fail ex_policy 2 ex_synced "- ENODEV" ex_refused] t2
  have r2: "cpus_allowed ex_refused = cpus_allowed ex_synced"
    by simp
  from t1 t2 t3 g1 g2 g3 m r1 r2 show ?thesis
    by simp
qed


end
